theory Spec2Isabelle
  imports Complex_Main "HOL-Library.Sublist" "HOL-Library.Log_Nat" "HOL-Library.Word"
begin

section \<open>Urban Price Radar: the client-side price-band viewer\<close>

text \<open>
  The development embeds the pure parts of the React front end:
  \<^item> \<^verbatim>\<open>App.jsx\<close>: the dataset fetch, the area projection \<^verbatim>\<open>filteredAreas\<close>,
    the render guards, \<^verbatim>\<open>formatUpdateDate\<close> and \<^verbatim>\<open>DataInfo\<close>;
  \<^item> \<^verbatim>\<open>PriceBadge.jsx\<close>: \<^verbatim>\<open>formatPrice\<close>, \<^verbatim>\<open>shouldShow\<close>, \<^verbatim>\<open>showAsDot\<close>;
  \<^item> \<^verbatim>\<open>SearchBar.jsx\<close>: the suggestion effect;
  \<^item> \<^verbatim>\<open>Filters.jsx\<close>: the mode toggle and \<^verbatim>\<open>handleBudgetClick\<close>.

  A finite JavaScript number is a rational, so numbers are of type \<^typ>\<open>rat\<close>; comparisons
  of finite numbers are exact. \<^verbatim>\<open>null\<close> and \<^verbatim>\<open>undefined\<close> are \<^term>\<open>None\<close>.
  The strings the code only compares with ASCII literals or prints are \<^typ>\<open>string\<close>;
  the strings the search reads (the query, the names and the regions) are sequences of
  UTF-16 code units.
\<close>

subsection \<open>Data model\<close>

text \<open>
  \<^verbatim>\<open>{min, max}\<close> is shared by a price cell (\<^verbatim>\<open>{min, max, confidence}\<close>) and by a budget
  preset (\<^verbatim>\<open>{label, fullLabel, min, max, color}\<close>); both extend one record. The fields
  are named \<open>min_val\<close> and \<open>max_val\<close> because \<open>min\<close> and \<open>max\<close> are constants of HOL.
\<close>

record range =
  min_val :: rat
  max_val :: rat

record price_band = range +
  confidence :: string

record budget = range +
  label :: string
  fullLabel :: string
  color :: string

text \<open>\<^verbatim>\<open>mode\<close> is \<^verbatim>\<open>'buy' | 'rent'\<close>; the property type is the key of the price cell.\<close>

datatype mode = Buy | Rent

type_synonym property_type = string

text \<open>
  A JavaScript string is a sequence of 16-bit code units, and \<^verbatim>\<open>length\<close> counts them.
  \<open>js_str\<close> is the string of an ASCII literal.
\<close>

type_synonym code_unit = "16 word"

type_synonym js_string = "code_unit list"

definition js_str :: "string \<Rightarrow> js_string" where
  "js_str s = map of_char s"

text \<open>
  An area of \<^verbatim>\<open>prices.json\<close>. \<^verbatim>\<open>area.buy\<close> and \<^verbatim>\<open>area.rent\<close> are objects keyed by
  property type, and either may be missing; \<^verbatim>\<open>region\<close> is optional
  (\<^verbatim>\<open>area.region?.toLowerCase()\<close>).
\<close>

record area_record =
  area_id :: nat
  name :: js_string
  region :: "js_string option"
  lat :: rat
  lng :: rat
  zoom_level :: string
  buy :: "(property_type \<rightharpoonup> price_band) option"
  rent :: "(property_type \<rightharpoonup> price_band) option"

record dataset =
  version :: string
  generated_at :: "string option"
  disclaimer :: "string option"
  areas :: "area_record list"

text \<open>
  The projected area \<^verbatim>\<open>{...area, visible, priceRange, withinBudget}\<close>: the area's own
  fields and the derived ones. \<^verbatim>\<open>withinBudget\<close> is not set on the branch without a price
  cell, so it is optional.
\<close>

record projected_area = area_record +
  visible :: bool
  priceRange :: "price_band option"
  withinBudget :: "bool option"

subsection \<open>Area projection (\<^verbatim>\<open>filteredAreas\<close>, App.jsx)\<close>

text \<open>\<^verbatim>\<open>area[mode]?.[propertyType]\<close>\<close>

definition area_prices :: "'a area_record_scheme \<Rightarrow> mode \<Rightarrow> property_type \<Rightarrow> price_band option" where
  "area_prices area m pt =
     (case (case m of Buy \<Rightarrow> buy area | Rent \<Rightarrow> rent area) of
        None \<Rightarrow> None
      | Some cells \<Rightarrow> cells pt)"

text \<open>
  The body of the \<^verbatim>\<open>map\<close> callback:
  \<^verbatim>\<open>
  const prices = area[mode]?.[propertyType]
  if (!prices) return { ...area, visible: false, priceRange: null }
  let withinBudget = true
  if (budgetRange) {
    withinBudget = prices.min <= budgetRange.max && prices.max >= budgetRange.min
  }
  return { ...area, visible: withinBudget, priceRange: prices, withinBudget }
  \<close>
\<close>

definition project_area ::
  "mode \<Rightarrow> property_type \<Rightarrow> budget option \<Rightarrow> area_record \<Rightarrow> projected_area" where
  "project_area m pt br area =
     (case area_prices area m pt of
        None \<Rightarrow>
          area_record.extend area
            \<lparr>visible = False, priceRange = None, withinBudget = None\<rparr>
      | Some prices \<Rightarrow>
          (let inBudget =
                 (case br of
                    None \<Rightarrow> True
                  | Some b \<Rightarrow> min_val prices \<le> max_val b \<and> max_val prices \<ge> min_val b)
           in area_record.extend area
                \<lparr>visible = inBudget, priceRange = Some prices, withinBudget = Some inBudget\<rparr>))"

text \<open>\<^verbatim>\<open>priceData?.areas?.map(...) || []\<close>\<close>

definition filteredAreas ::
  "dataset option \<Rightarrow> mode \<Rightarrow> property_type \<Rightarrow> budget option \<Rightarrow> projected_area list" where
  "filteredAreas pd m pt br =
     (case pd of
        None \<Rightarrow> []
      | Some d \<Rightarrow> map (project_area m pt br) (areas d))"

text \<open>The two counts handed to \<^verbatim>\<open>DataInfo\<close>.\<close>

definition visibleCount :: "projected_area list \<Rightarrow> nat" where
  "visibleCount fa = length (filter visible fa)"

definition totalCount :: "projected_area list \<Rightarrow> nat" where
  "totalCount fa = length fa"


subsection \<open>Marker density resolver (\<^verbatim>\<open>shouldShow\<close>, \<^verbatim>\<open>showAsDot\<close>, PriceBadge.jsx)\<close>

text \<open>
  \<^verbatim>\<open>currentZoom\<close> is \<^verbatim>\<open>map.getZoom()\<close>, a number that need not be integral.
  \<^verbatim>\<open>
  if (!area.visible) return false
  const zoomLevel = area.zoom_level
  if (zoomLevel === 'country') return currentZoom < 7
  if (zoomLevel === 'state') return currentZoom >= 7 && currentZoom < 10
  if (zoomLevel === 'city') return currentZoom < 11
  if (zoomLevel === 'region') return currentZoom >= 11
  if (zoomLevel === 'area') return currentZoom >= 11
  if (zoomLevel === 'micro') return currentZoom >= 14
  return false
  \<close>
\<close>

definition shouldShow :: "projected_area \<Rightarrow> rat \<Rightarrow> bool" where
  "shouldShow area currentZoom =
     (if \<not> visible area then False
      else let zoomLevel = zoom_level area in
        if zoomLevel = ''country'' then currentZoom < 7
        else if zoomLevel = ''state'' then currentZoom \<ge> 7 \<and> currentZoom < 10
        else if zoomLevel = ''city'' then currentZoom < 11
        else if zoomLevel = ''region'' then currentZoom \<ge> 11
        else if zoomLevel = ''area'' then currentZoom \<ge> 11
        else if zoomLevel = ''micro'' then currentZoom \<ge> 14
        else False)"

text \<open>
  \<^verbatim>\<open>
  if (['city', 'state', 'country'].includes(area.zoom_level)) return false
  if (currentZoom >= 14) return false
  return !isHovered
  \<close>
\<close>

definition showAsDot :: "'a area_record_scheme \<Rightarrow> rat \<Rightarrow> bool \<Rightarrow> bool" where
  "showAsDot area currentZoom isHovered =
     (if zoom_level area \<in> set [''city'', ''state'', ''country''] then False
      else if currentZoom \<ge> 14 then False
      else \<not> isHovered)"

text \<open>
  What the component returns: nothing when \<^verbatim>\<open>!shouldShow || !icon\<close> (the icon is
  \<^verbatim>\<open>null\<close> exactly when \<^verbatim>\<open>area.priceRange\<close> is), else a marker whose icon is the dot or
  the badge.
\<close>

datatype marker = NoMarker | DotMarker | BadgeMarker

definition PriceBadge :: "projected_area \<Rightarrow> rat \<Rightarrow> bool \<Rightarrow> marker" where
  "PriceBadge area currentZoom isHovered =
     (if \<not> shouldShow area currentZoom \<or> priceRange area = None then NoMarker
      else if showAsDot area currentZoom isHovered then DotMarker
      else BadgeMarker)"

subsection \<open>Filter state and the handlers of Filters.jsx\<close>

record filter_state =
  mode :: mode
  propertyType :: property_type
  budgetRange :: "budget option"
  priceUnit :: string

text \<open>The state \<^verbatim>\<open>App\<close> starts with.\<close>

definition initial_filters :: filter_state where
  "initial_filters =
     \<lparr>mode = Buy, propertyType = ''2bhk'', budgetRange = None, priceUnit = ''total''\<rparr>"

text \<open>
  \<^verbatim>\<open>budgetRange?.min === budget.min && budgetRange?.max === budget.max\<close>: with no
  budget range the left operands are \<^verbatim>\<open>undefined\<close>, which no number equals.
\<close>

definition isBudgetActive :: "budget \<Rightarrow> filter_state \<Rightarrow> bool" where
  "isBudgetActive b s =
     (case budgetRange s of
        None \<Rightarrow> False
      | Some r \<Rightarrow> min_val r = min_val b \<and> max_val r = max_val b)"

definition handleBudgetClick :: "budget \<Rightarrow> filter_state \<Rightarrow> filter_state" where
  "handleBudgetClick b s =
     (if isBudgetActive b s then s\<lparr>budgetRange := None\<rparr>
      else s\<lparr>budgetRange := Some b\<rparr>)"

text \<open>
  Every handler of the component that writes the filter state (the panel's
  \<^verbatim>\<open>expanded\<close> flag is local to it). The mode buttons run
  \<^verbatim>\<open>setMode('buy'); setBudgetRange(null)\<close> and \<^verbatim>\<open>setMode('rent'); setBudgetRange(null)\<close>.
\<close>

datatype filter_event =
    ClickBuy
  | ClickRent
  | ClickPropertyType property_type
  | ClickPriceUnit string
  | ClickBudget budget
  | ClickClear

fun filter_step :: "filter_event \<Rightarrow> filter_state \<Rightarrow> filter_state" where
  "filter_step ClickBuy s = s\<lparr>mode := Buy, budgetRange := None\<rparr>"
| "filter_step ClickRent s = s\<lparr>mode := Rent, budgetRange := None\<rparr>"
| "filter_step (ClickPropertyType t) s = s\<lparr>propertyType := t\<rparr>"
| "filter_step (ClickPriceUnit u) s = s\<lparr>priceUnit := u\<rparr>"
| "filter_step (ClickBudget b) s = handleBudgetClick b s"
| "filter_step ClickClear s = s\<lparr>budgetRange := None\<rparr>"

text \<open>The projection \<^verbatim>\<open>App\<close> renders from its state.\<close>

definition projected :: "dataset option \<Rightarrow> filter_state \<Rightarrow> projected_area list" where
  "projected pd s = filteredAreas pd (mode s) (propertyType s) (budgetRange s)"


subsection \<open>Dataset fetch and the render guards (\<^verbatim>\<open>fetchPrices\<close>, App.jsx)\<close>

text \<open>
  The three \<^verbatim>\<open>useState\<close> cells the fetch writes. \<^verbatim>\<open>error\<close> holds \<^verbatim>\<open>err.message\<close>.
\<close>

record load_state =
  priceData :: "dataset option"
  loading :: bool
  error :: "string option"

definition initial_load :: load_state where
  "initial_load = \<lparr>priceData = None, loading = True, error = None\<rparr>"

text \<open>
  What the awaited calls can do: \<^verbatim>\<open>fetch\<close> rejects (with a message) or resolves to a
  response; \<^verbatim>\<open>response.json()\<close> rejects (with a message) or resolves to the data.
\<close>

datatype response = Response (ok: bool) (json: "string + dataset")

datatype fetch_result = Rejected string | Resolved response

text \<open>
  \<^verbatim>\<open>
  try {
    setLoading(true)
    const response = await fetch(API_URL)
    if (!response.ok) throw new Error('Failed to fetch price data')
    const data = await response.json()
    setPriceData(data)
  } catch (err) {
    setError(err.message)
  } finally {
    setLoading(false)
  }
  \<close>
  \<open>fetchPrices_start\<close> is the state while the request is pending, \<open>fetchPrices_settle\<close>
  the state once it has settled.
\<close>

definition fetchPrices_start :: "load_state \<Rightarrow> load_state" where
  "fetchPrices_start s = s\<lparr>loading := True\<rparr>"

definition fetchPrices_settle :: "fetch_result \<Rightarrow> load_state \<Rightarrow> load_state" where
  "fetchPrices_settle r s =
     (let s' =
        (case r of
           Rejected msg \<Rightarrow> s\<lparr>error := Some msg\<rparr>
         | Resolved resp \<Rightarrow>
             if \<not> ok resp then s\<lparr>error := Some ''Failed to fetch price data''\<rparr>
             else (case json resp of
                     Inl msg \<Rightarrow> s\<lparr>error := Some msg\<rparr>
                   | Inr data \<Rightarrow> s\<lparr>priceData := Some data\<rparr>))
      in s'\<lparr>loading := False\<rparr>)"

definition fetchPrices :: "fetch_result \<Rightarrow> load_state \<Rightarrow> load_state" where
  "fetchPrices r s = fetchPrices_settle r (fetchPrices_start s)"

text \<open>
  The render guards: \<^verbatim>\<open>if (loading) ...; if (error) ...; return <main view>\<close>. A string is
  truthy when it is not empty. The error view shows the message and the button
  \<^verbatim>\<open>Try Again\<close>, whose handler is \<^verbatim>\<open>fetchPrices\<close>.
\<close>

datatype view = LoadingView | ErrorView string | MainView

definition App_view :: "load_state \<Rightarrow> view" where
  "App_view s =
     (if loading s then LoadingView
      else (case error s of
              None \<Rightarrow> MainView
            | Some msg \<Rightarrow> if msg = [] then MainView else ErrorView msg))"

subsection \<open>Numbers: double rounding, \<^verbatim>\<open>Math.round\<close>, \<^verbatim>\<open>toFixed\<close>, number to string\<close>

text \<open>
  A number is a double. \<^verbatim>\<open>x / y\<close> is the exact quotient rounded to the nearest double,
  ties to the even significand. \<open>fl\<close> is that rounding for binary64: 53 significant bits,
  least exponent \<open>-1074\<close> (results beyond the largest double are not modelled).
  \<open>ilog2 x\<close> is the exponent of the leading bit of a positive \<open>x\<close>.
\<close>

definition ilog2 :: "rat \<Rightarrow> int" where
  "ilog2 x =
     (let (a, b) = quotient_of x;
          d = bitlen a - bitlen b
      in if 2 powi d \<le> x then d else d - 1)"

definition round_ties_even :: "rat \<Rightarrow> int" where
  "round_ties_even y =
     (let n = \<lfloor>y\<rfloor>; r = y - of_int n
      in if r < 1 / 2 then n
         else if 1 / 2 < r then n + 1
         else if even n then n else n + 1)"

definition fl :: "rat \<Rightarrow> rat" where
  "fl x =
     (if x = 0 then 0
      else let e = max (ilog2 \<bar>x\<bar> - 52) (- 1074)
           in sgn x * of_int (round_ties_even (\<bar>x\<bar> / 2 powi e)) * 2 powi e)"

definition js_div :: "rat \<Rightarrow> rat \<Rightarrow> rat" where
  "js_div x y = fl (x / y)"

definition js_sub :: "rat \<Rightarrow> rat \<Rightarrow> rat" where
  "js_sub x y = fl (x - y)"

text \<open>
  \<^verbatim>\<open>Math.round\<close>: the nearest integer, the larger one on a tie. \<^verbatim>\<open>Math.floor\<close>: the floor.
\<close>

definition Math_round :: "rat \<Rightarrow> int" where
  "Math_round x = \<lfloor>x + 1 / 2\<rfloor>"

definition Math_floor :: "rat \<Rightarrow> int" where
  "Math_floor x = \<lfloor>x\<rfloor>"

text \<open>The decimal digits of a natural number, and of an integer as a template prints it.\<close>

definition digit_char :: "nat \<Rightarrow> char" where
  "digit_char d = ''0123456789'' ! d"

fun show_nat :: "nat \<Rightarrow> string" where
  "show_nat n = (if n < 10 then [digit_char n] else show_nat (n div 10) @ [digit_char (n mod 10)])"

definition show_int :: "int \<Rightarrow> string" where
  "show_int i = (if i < 0 then ''-'' @ show_nat (nat (- i)) else show_nat (nat i))"

text \<open>
  \<^verbatim>\<open>Number.prototype.toFixed(f)\<close> for a finite \<open>x\<close> of magnitude below \<open>10^21\<close>
  (ECMA-262): the sign, then the integer \<open>n\<close> for which \<open>n / 10^f - |x|\<close> is closest to
  zero (the larger on a tie), printed with at least \<open>f + 1\<close> digits and a point before the
  last \<open>f\<close>.
\<close>

definition toFixed :: "nat \<Rightarrow> rat \<Rightarrow> string" where
  "toFixed f x =
     (let s = (if x < 0 then ''-'' else []);
          n = nat \<lfloor>\<bar>x\<bar> * 10 ^ f + 1 / 2\<rfloor>;
          m = show_nat n
      in if f = 0 then s @ m
         else let k = length m;
                  z = (if k \<le> f then replicate (f + 1 - k) (CHR ''0'') else []);
                  m' = z @ m;
                  k' = length m'
              in s @ take (k' - f) m' @ ''.'' @ drop (k' - f) m')"

subsection \<open>Price formatting (\<^verbatim>\<open>formatPrice\<close>, PriceBadge.jsx)\<close>

text \<open>The rupee sign U+20B9, in UTF-8.\<close>

definition rupee :: string where
  "rupee = [CHR 0xE2, CHR 0x82, CHR 0xB9]"

text \<open>
  \<^verbatim>\<open>
  if (isRent) {
    if (price >= 100000) return `R${(price / 100000).toFixed(1)}L`
    return `R${Math.round(price / 1000)}K`
  }
  if (price >= 10000000) return `R${(price / 10000000).toFixed(1)}Cr`
  return `R${(price / 100000).toFixed(0)}L`
  \<close>
  (\<^verbatim>\<open>R\<close> stands for the rupee sign.)
\<close>

definition formatPrice :: "rat \<Rightarrow> bool \<Rightarrow> string" where
  "formatPrice price isRent =
     (if isRent then
        (if price \<ge> 100000 then rupee @ toFixed 1 (js_div price 100000) @ ''L''
         else rupee @ show_int (Math_round (js_div price 1000)) @ ''K'')
      else if price \<ge> 10000000 then rupee @ toFixed 1 (js_div price 10000000) @ ''Cr''
      else rupee @ toFixed 0 (js_div price 100000) @ ''L'')"

subsection \<open>The update date (\<^verbatim>\<open>formatUpdateDate\<close>, \<^verbatim>\<open>DataInfo\<close>, App.jsx)\<close>

text \<open>
  What the function reads from its environment: the \<^verbatim>\<open>Date\<close> parser (the time value in
  milliseconds, or \<open>None\<close> for the time value \<^verbatim>\<open>NaN\<close> of an Invalid Date), the clock,
  the local calendar year of a time value, and the \<^verbatim>\<open>en-IN\<close> date formatter (with or
  without the year; \<open>None\<close> when it throws).
\<close>

record date_env =
  Date_parse :: "string \<Rightarrow> int option"
  Date_now :: int
  getFullYear :: "int \<Rightarrow> int"
  format_en_IN :: "int \<Rightarrow> bool \<Rightarrow> string option"

text \<open>
  \<^verbatim>\<open>date.toLocaleDateString('en-IN', {...})\<close>: an Invalid Date yields the string
  \<^verbatim>\<open>Invalid Date\<close> and does not throw (ECMA-402, Date.prototype.toLocaleDateString).
  The \<^verbatim>\<open>year\<close> option is \<^verbatim>\<open>'numeric'\<close> when the years differ; the year of an Invalid Date
  is \<^verbatim>\<open>NaN\<close>, which differs from every year.
\<close>

definition toLocaleDateString :: "date_env \<Rightarrow> int option \<Rightarrow> string option" where
  "toLocaleDateString env date =
     (case date of
        None \<Rightarrow> Some ''Invalid Date''
      | Some t \<Rightarrow> format_en_IN env t (getFullYear env t \<noteq> getFullYear env (Date_now env)))"

text \<open>
  \<^verbatim>\<open>Math.floor((now - date) / (1000 * 60 * 60 * 24))\<close>; \<open>None\<close> is \<^verbatim>\<open>NaN\<close>.
\<close>

definition diffDays :: "date_env \<Rightarrow> int option \<Rightarrow> int option" where
  "diffDays env date =
     (case date of
        None \<Rightarrow> None
      | Some t \<Rightarrow> Some (Math_floor (js_div (js_sub (of_int (Date_now env)) (of_int t)) 86400000)))"

text \<open>
  \<^verbatim>\<open>
  if (!dateString) return null
  try {
    const date = new Date(dateString)
    const now = new Date()
    const diffDays = Math.floor((now - date) / (1000 * 60 * 60 * 24))
    if (diffDays === 0) return 'Today'
    if (diffDays === 1) return 'Yesterday'
    if (diffDays < 7) return `${diffDays} days ago`
    return date.toLocaleDateString('en-IN', {...})
  } catch {
    return null
  }
  \<close>
  Every comparison with \<^verbatim>\<open>NaN\<close> is false.
\<close>

definition formatUpdateDate :: "date_env \<Rightarrow> string option \<Rightarrow> string option" where
  "formatUpdateDate env dateString =
     (case dateString of
        None \<Rightarrow> None
      | Some ds \<Rightarrow>
          if ds = [] then None
          else let date = Date_parse env ds;
                   dd = diffDays env date
               in if dd = Some 0 then Some ''Today''
                  else if dd = Some 1 then Some ''Yesterday''
                  else if (case dd of None \<Rightarrow> False | Some d \<Rightarrow> d < 7)
                       then Some (show_int (the dd) @ '' days ago'')
                  else (case toLocaleDateString env date of
                          None \<Rightarrow> None
                        | Some str \<Rightarrow> Some str))"

text \<open>
  \<^verbatim>\<open>DataInfo\<close>: the badge \<^verbatim>\<open>Updated {updateDate}\<close> is rendered when \<^verbatim>\<open>updateDate\<close> is
  truthy; the counts and the version always are.
\<close>

record data_info =
  update_badge :: "string option"
  counts_text :: string
  version_text :: string

definition DataInfo :: "date_env \<Rightarrow> string \<Rightarrow> string option \<Rightarrow> nat \<Rightarrow> nat \<Rightarrow> data_info" where
  "DataInfo env ver generatedAt vc tc =
     \<lparr>update_badge =
        (case formatUpdateDate env generatedAt of
           None \<Rightarrow> None
         | Some updateDate \<Rightarrow>
             if updateDate = [] then None else Some (''Updated '' @ updateDate)),
      counts_text = show_nat vc @ '' / '' @ show_nat tc @ '' areas'',
      version_text = ''v'' @ ver\<rparr>"

subsection \<open>Search suggestions (the effect of SearchBar.jsx)\<close>

text \<open>
  \<^verbatim>\<open>String.prototype.trim\<close> removes the code units of \<^verbatim>\<open>WhiteSpace\<close> and
  \<^verbatim>\<open>LineTerminator\<close> (ECMA-262) at both ends: TAB, LF, VT, FF, CR, SP, NBSP, the other
  space separators U+1680, U+2000 to U+200A, U+202F, U+205F and U+3000, the line and
  paragraph separators U+2028 and U+2029, and U+FEFF.
\<close>

definition is_space :: "code_unit \<Rightarrow> bool" where
  "is_space c \<longleftrightarrow>
     c \<in> set [0x09, 0x0A, 0x0B, 0x0C, 0x0D, 0x20, 0xA0, 0x1680, 0x2028, 0x2029, 0x202F,
              0x205F, 0x3000, 0xFEFF] \<or>
     (0x2000 \<le> c \<and> c \<le> 0x200A)"

definition trim :: "js_string \<Rightarrow> js_string" where
  "trim s = rev (dropWhile is_space (rev (dropWhile is_space s)))"

text \<open>
  \<^verbatim>\<open>String.prototype.toLowerCase\<close> converts by the Unicode case mappings. On a string of
  ASCII code units that is: \<^verbatim>\<open>A\<close>..\<^verbatim>\<open>Z\<close> (0x41..0x5A) become \<^verbatim>\<open>a\<close>..\<^verbatim>\<open>z\<close> and
  nothing else changes. For a string with a code unit outside ASCII the result is what
  the engine's Unicode tables give, \<open>unicode_lower\<close>, a parameter.
\<close>

definition is_ascii :: "code_unit \<Rightarrow> bool" where
  "is_ascii c \<longleftrightarrow> c < 0x80"

definition lower_ascii :: "code_unit \<Rightarrow> code_unit" where
  "lower_ascii c = (if 0x41 \<le> c \<and> c \<le> 0x5A then c + 0x20 else c)"

definition toLowerCase :: "(js_string \<Rightarrow> js_string) \<Rightarrow> js_string \<Rightarrow> js_string" where
  "toLowerCase unicode_lower s =
     (if list_all is_ascii s then map lower_ascii s else unicode_lower s)"

text \<open>\<^verbatim>\<open>s.includes(q)\<close>: \<open>q\<close> occurs in \<open>s\<close> at some position.\<close>

fun includes_str :: "js_string \<Rightarrow> js_string \<Rightarrow> bool" where
  "includes_str [] q = (q = [])"
| "includes_str (c # s) q = (prefix q (c # s) \<or> includes_str s q)"

text \<open>
  \<^verbatim>\<open>
  if (query.trim().length < 2) { setSuggestions([]); return }
  const q = query.toLowerCase()
  const matches = areas
    .filter(area => area.name.toLowerCase().includes(q) ||
                    area.region?.toLowerCase().includes(q))
    .slice(0, 8)
  setSuggestions(matches)
  \<close>
\<close>

definition area_matches ::
  "(js_string \<Rightarrow> js_string) \<Rightarrow> js_string \<Rightarrow> 'a area_record_scheme \<Rightarrow> bool" where
  "area_matches unicode_lower q area \<longleftrightarrow>
     includes_str (toLowerCase unicode_lower (name area)) q \<or>
     (case region area of
        None \<Rightarrow> False
      | Some r \<Rightarrow> includes_str (toLowerCase unicode_lower r) q)"

definition suggestions ::
  "(js_string \<Rightarrow> js_string) \<Rightarrow> js_string \<Rightarrow> area_record list \<Rightarrow> area_record list" where
  "suggestions unicode_lower query ars =
     (if length (trim query) < 2 then []
      else let q = toLowerCase unicode_lower query
           in take 8 (filter (area_matches unicode_lower q) ars))"





subsection \<open>Constants of the source and sample inputs\<close>

text \<open>The budget presets of Filters.jsx.\<close>

definition BUY_BUDGETS :: "budget list" where
  "BUY_BUDGETS =
     [\<lparr>min_val = 0, max_val = 5000000, label = ''<50L'',
       fullLabel = ''Under '' @ rupee @ ''50L'', color = ''#10b981''\<rparr>,
      \<lparr>min_val = 5000000, max_val = 8000000, label = ''50-80L'',
       fullLabel = rupee @ ''50L - 80L'', color = ''#3b82f6''\<rparr>,
      \<lparr>min_val = 8000000, max_val = 12000000, label = ''80L-1.2Cr'',
       fullLabel = rupee @ ''80L - 1.2Cr'', color = ''#f59e0b''\<rparr>,
      \<lparr>min_val = 12000000, max_val = 20000000, label = ''1.2-2Cr'',
       fullLabel = rupee @ ''1.2Cr - 2Cr'', color = ''#ef4444''\<rparr>,
      \<lparr>min_val = 20000000, max_val = 999999999, label = ''2Cr+'',
       fullLabel = rupee @ ''2Cr+'', color = ''#a855f7''\<rparr>]"

definition RENT_BUDGETS :: "budget list" where
  "RENT_BUDGETS =
     [\<lparr>min_val = 0, max_val = 20000, label = ''<20K'',
       fullLabel = ''Under '' @ rupee @ ''20K'', color = ''#10b981''\<rparr>,
      \<lparr>min_val = 20000, max_val = 40000, label = ''20-40K'',
       fullLabel = rupee @ ''20K - 40K'', color = ''#3b82f6''\<rparr>,
      \<lparr>min_val = 40000, max_val = 70000, label = ''40-70K'',
       fullLabel = rupee @ ''40K - 70K'', color = ''#f59e0b''\<rparr>,
      \<lparr>min_val = 70000, max_val = 100000, label = ''70K-1L'',
       fullLabel = rupee @ ''70K - 1L'', color = ''#ef4444''\<rparr>,
      \<lparr>min_val = 100000, max_val = 999999999, label = ''1L+'',
       fullLabel = rupee @ ''1L+'', color = ''#a855f7''\<rparr>]"

text \<open>
  The area of the specification's end-to-end example (a 2BHK purchase band of 80L to
  1.2Cr), given a region and coordinates, and two more areas: one with rent data only,
  one with neither.
\<close>

definition andheri :: area_record where
  "andheri =
     \<lparr>area_id = 1, name = js_str ''Andheri'', region = Some (js_str ''Mumbai Western Suburbs''),
      lat = 19.1136, lng = 72.8697, zoom_level = ''area'',
      buy = Some [''2bhk'' \<mapsto> \<lparr>min_val = 8000000, max_val = 12000000, confidence = ''high''\<rparr>],
      rent = None\<rparr>"

definition powai :: area_record where
  "powai =
     \<lparr>area_id = 2, name = js_str ''Powai'', region = Some (js_str ''Mumbai''),
      lat = 19.1176, lng = 72.906, zoom_level = ''micro'',
      buy = Some Map.empty,
      rent = Some [''1bhk'' \<mapsto> \<lparr>min_val = 35000, max_val = 55000, confidence = ''medium''\<rparr>]\<rparr>"

definition pune :: area_record where
  "pune =
     \<lparr>area_id = 3, name = js_str ''Pune'', region = None,
      lat = 18.5204, lng = 73.8567, zoom_level = ''city'',
      buy = None, rent = None\<rparr>"

definition sample_data :: dataset where
  "sample_data =
     \<lparr>version = ''1.0'', generated_at = Some ''not-a-date'', disclaimer = None,
      areas = [andheri, powai, pune]\<rparr>"



text \<open>
  An area whose name has a code unit outside ASCII (\<^verbatim>\<open>Caf\<close> and U+00E9), and the Unicode
  lower-casing on strings of code units below 0x100: the capitals \<^verbatim>\<open>A\<close>..\<^verbatim>\<open>Z\<close> and U+00C0
  to U+00DE, without the multiplication sign U+00D7, gain 0x20.
\<close>

definition cafe :: area_record where
  "cafe =
     \<lparr>area_id = 4, name = js_str ''Caf'' @ [0xE9], region = None,
      lat = 19.0596, lng = 72.8295, zoom_level = ''micro'',
      buy = None, rent = None\<rparr>"

definition latin1_lower :: "js_string \<Rightarrow> js_string" where
  "latin1_lower s =
     map (\<lambda>c. if (0x41 \<le> c \<and> c \<le> 0x5A) \<or> (0xC0 \<le> c \<and> c \<le> 0xDE \<and> c \<noteq> 0xD7)
              then c + 0x20 else c) s"

text \<open>
  An environment for \<^verbatim>\<open>formatUpdateDate\<close> in which the clock reads
  2024-01-20T00:00:00Z and the parser knows one ISO string, 2024-01-15T00:00:00Z.
\<close>

definition sample_env :: date_env where
  "sample_env =
     \<lparr>Date_parse = (\<lambda>ds. if ds = ''2024-01-15T00:00:00Z'' then Some 1705276800000 else None),
      Date_now = 1705708800000,
      getFullYear = (\<lambda>t. 1970 + t div 31556952000),
      format_en_IN = (\<lambda>t y. Some (if y then ''15 Jan 2024'' else ''15 Jan''))\<rparr>"

section \<open>Properties\<close>

subsection \<open>Area projection\<close>

lemma project_area_absent:
  "area_prices a m pt = None \<Longrightarrow>
   project_area m pt br a =
     area_record.extend a \<lparr>visible = False, priceRange = None, withinBudget = None\<rparr>"
  by (simp add: project_area_def)

lemma project_area_present:
  "area_prices a m pt = Some prices \<Longrightarrow>
   project_area m pt br a =
     area_record.extend a
       \<lparr>visible = (case br of None \<Rightarrow> True
                    | Some b \<Rightarrow> min_val prices \<le> max_val b \<and> max_val prices \<ge> min_val b),
        priceRange = Some prices,
        withinBudget = Some (case br of None \<Rightarrow> True
                    | Some b \<Rightarrow> min_val prices \<le> max_val b \<and> max_val prices \<ge> min_val b)\<rparr>"
  by (simp add: project_area_def Let_def)

lemma bands_overlap_iff:
  fixes lo hi lo' hi' :: rat
  assumes "lo \<le> hi" and "lo' \<le> hi'"
  shows "(lo \<le> hi' \<and> hi \<ge> lo') = (\<exists>x. lo \<le> x \<and> x \<le> hi \<and> lo' \<le> x \<and> x \<le> hi')"
proof
  assume ov: "lo \<le> hi' \<and> hi \<ge> lo'"
  have "lo \<le> max lo lo' \<and> max lo lo' \<le> hi \<and> lo' \<le> max lo lo' \<and> max lo lo' \<le> hi'"
    using ov assms by auto
  then show "\<exists>x. lo \<le> x \<and> x \<le> hi \<and> lo' \<le> x \<and> x \<le> hi'" ..
next
  assume "\<exists>x. lo \<le> x \<and> x \<le> hi \<and> lo' \<le> x \<and> x \<le> hi'"
  then show "lo \<le> hi' \<and> hi \<ge> lo'" by auto
qed

text \<open>
  Claim C1. For an area whose price cell exists for the active mode and property type,
  the projection sets \<^verbatim>\<open>withinBudget\<close> to true when no budget range is set, and otherwise
  to \<open>prices.min \<le> budgetRange.max \<and> prices.max \<ge> budgetRange.min\<close>. For bands with
  \<open>min \<le> max\<close> that condition says that the two closed intervals share a point, so the
  boundaries are inclusive.
\<close>

theorem withinBudget_iff_overlap:
  assumes "area_prices a m pt = Some prices"
  shows "withinBudget (project_area m pt None a) = Some True \<and>
         withinBudget (project_area m pt (Some b) a) =
           Some (min_val prices \<le> max_val b \<and> max_val prices \<ge> min_val b) \<and>
         (min_val prices \<le> max_val prices \<and> min_val b \<le> max_val b \<longrightarrow>
            (withinBudget (project_area m pt (Some b) a) = Some True) =
            (\<exists>x. min_val prices \<le> x \<and> x \<le> max_val prices \<and> min_val b \<le> x \<and> x \<le> max_val b))"
proof -
  have none: "withinBudget (project_area m pt None a) = Some True"
    by (simp add: project_area_present [OF assms] area_record.extend_def)
  have some: "withinBudget (project_area m pt (Some b) a) =
           Some (min_val prices \<le> max_val b \<and> max_val prices \<ge> min_val b)"
    by (simp add: project_area_present [OF assms] area_record.extend_def)
  show ?thesis
    using none some bands_overlap_iff [of "min_val prices" "max_val prices" "min_val b" "max_val b"]
    by simp
qed

theorem withinBudget_iff_overlap_witness:
  "area_prices andheri Buy ''2bhk'' =
     Some \<lparr>min_val = 8000000, max_val = 12000000, confidence = ''high''\<rparr> \<and>
   withinBudget (project_area Buy ''2bhk'' None andheri) = Some True \<and>
   withinBudget (project_area Buy ''2bhk'' (Some (BUY_BUDGETS ! 1)) andheri) = Some True \<and>
   (\<exists>x::rat. 8000000 \<le> x \<and> x \<le> 12000000 \<and> 5000000 \<le> x \<and> x \<le> 8000000) \<and>
   withinBudget (project_area Buy ''2bhk'' (Some (BUY_BUDGETS ! 0)) andheri) = Some False \<and>
   \<not> (\<exists>x::rat. 8000000 \<le> x \<and> x \<le> 12000000 \<and> 0 \<le> x \<and> x \<le> 5000000)"
proof -
  have c: "area_prices andheri Buy ''2bhk'' =
     Some \<lparr>min_val = 8000000, max_val = 12000000, confidence = ''high''\<rparr>"
    by (simp add: area_prices_def andheri_def)
  have b1: "min_val (BUY_BUDGETS ! 1) = 5000000" "max_val (BUY_BUDGETS ! 1) = 8000000"
    by (simp_all add: BUY_BUDGETS_def)
  have b0: "min_val (BUY_BUDGETS ! 0) = 0" "max_val (BUY_BUDGETS ! 0) = 5000000"
    by (simp_all add: BUY_BUDGETS_def)
  have t1: "withinBudget (project_area Buy ''2bhk'' None andheri) = Some True \<and>
      withinBudget (project_area Buy ''2bhk'' (Some (BUY_BUDGETS ! 1)) andheri) = Some True \<and>
      (\<exists>x::rat. 8000000 \<le> x \<and> x \<le> 12000000 \<and> 5000000 \<le> x \<and> x \<le> 8000000)"
    using withinBudget_iff_overlap [OF c, of "BUY_BUDGETS ! 1", unfolded b1]
    by auto
  have t0: "withinBudget (project_area Buy ''2bhk'' (Some (BUY_BUDGETS ! 0)) andheri) = Some False \<and>
      \<not> (\<exists>x::rat. 8000000 \<le> x \<and> x \<le> 12000000 \<and> 0 \<le> x \<and> x \<le> 5000000)"
    using withinBudget_iff_overlap [OF c, of "BUY_BUDGETS ! 0", unfolded b0]
    by auto
  from c t1 t0 show ?thesis by blast
qed

text \<open>
  Claim C2. When the price cell for the active mode and property type is absent, the
  projected area has \<^verbatim>\<open>visible = false\<close> and \<^verbatim>\<open>priceRange = null\<close>; when it exists,
  \<^verbatim>\<open>priceRange\<close> is the cell and \<^verbatim>\<open>visible\<close> equals \<^verbatim>\<open>withinBudget\<close>. The projection is a
  total function that keeps every field of the area, and every area of the dataset,
  visible or not, counts toward the total shown by \<^verbatim>\<open>DataInfo\<close>.
\<close>

theorem missing_cell_not_visible:
  "(area_prices a m pt = None \<longrightarrow>
      visible (project_area m pt br a) = False \<and>
      priceRange (project_area m pt br a) = None) \<and>
   (\<forall>prices. area_prices a m pt = Some prices \<longrightarrow>
      priceRange (project_area m pt br a) = Some prices \<and>
      withinBudget (project_area m pt br a) = Some (visible (project_area m pt br a))) \<and>
   area_record.truncate (project_area m pt br a) = a \<and>
   totalCount (filteredAreas (Some d) m pt br) = length (areas d) \<and>
   visibleCount (filteredAreas (Some d) m pt br) =
     length (filter (\<lambda>a. visible (project_area m pt br a)) (areas d))"
proof -
  have absent: "area_prices a m pt = None \<longrightarrow>
      visible (project_area m pt br a) = False \<and>
      priceRange (project_area m pt br a) = None"
    by (simp add: project_area_absent area_record.extend_def)
  have present: "\<forall>prices. area_prices a m pt = Some prices \<longrightarrow>
      priceRange (project_area m pt br a) = Some prices \<and>
      withinBudget (project_area m pt br a) = Some (visible (project_area m pt br a))"
    by (simp add: project_area_present area_record.extend_def)
  have same: "area_record.truncate (project_area m pt br a) = a"
    by (cases "area_prices a m pt")
       (simp_all add: project_area_absent project_area_present
          area_record.extend_def area_record.truncate_def)
  have total: "totalCount (filteredAreas (Some d) m pt br) = length (areas d)"
    by (simp add: totalCount_def filteredAreas_def)
  have vis: "visibleCount (filteredAreas (Some d) m pt br) =
     length (filter (\<lambda>a. visible (project_area m pt br a)) (areas d))"
    by (simp add: visibleCount_def filteredAreas_def filter_map comp_def)
  from absent present same total vis show ?thesis by blast
qed

theorem missing_cell_not_visible_witness:
  "area_prices pune Buy ''2bhk'' = None \<and>
   visible (project_area Buy ''2bhk'' None pune) = False \<and>
   priceRange (project_area Buy ''2bhk'' None pune) = None \<and>
   area_prices powai Buy ''2bhk'' = None \<and>
   visible (project_area Buy ''2bhk'' None powai) = False \<and>
   area_prices andheri Buy ''2bhk'' \<noteq> None \<and>
   visible (project_area Buy ''2bhk'' None andheri) = True \<and>
   totalCount (filteredAreas (Some sample_data) Buy ''2bhk'' None) = 3 \<and>
   visibleCount (filteredAreas (Some sample_data) Buy ''2bhk'' None) = 1"
proof -
  have c1: "area_prices pune Buy ''2bhk'' = None"
    by (simp add: area_prices_def pune_def)
  have c2: "area_prices powai Buy ''2bhk'' = None"
    by (simp add: area_prices_def powai_def)
  have c3: "area_prices andheri Buy ''2bhk'' =
     Some \<lparr>min_val = 8000000, max_val = 12000000, confidence = ''high''\<rparr>"
    by (simp add: area_prices_def andheri_def)
  have v3: "visible (project_area Buy ''2bhk'' None andheri) = True"
    by (simp add: project_area_present [OF c3] area_record.extend_def)
  show ?thesis
    using missing_cell_not_visible [of pune Buy "''2bhk''" None sample_data]
          missing_cell_not_visible [of powai Buy "''2bhk''" None sample_data]
          missing_cell_not_visible [of andheri Buy "''2bhk''" None sample_data]
          c1 c2 c3 v3
    by (simp add: sample_data_def)
qed


lemma project_area_visible_has_prices:
  "visible (project_area m pt br a) \<Longrightarrow> priceRange (project_area m pt br a) \<noteq> None"
  by (cases "area_prices a m pt")
     (simp_all add: project_area_absent project_area_present area_record.extend_def)

subsection \<open>Marker density resolver\<close>

lemma project_area_zoom_level:
  "zoom_level (project_area m pt br a) = zoom_level a"
  by (cases "area_prices a m pt")
     (simp_all add: project_area_absent project_area_present area_record.extend_def)

text \<open>
  Claim C5. For a visible area and any current zoom, \<^verbatim>\<open>shouldShow\<close> follows the tier:
  \<^verbatim>\<open>country\<close> iff the zoom is below 7, \<^verbatim>\<open>state\<close> iff it is at least 7 and below 10,
  \<^verbatim>\<open>city\<close> iff it is below 11, \<^verbatim>\<open>region\<close> and \<^verbatim>\<open>area\<close> iff it is at least 11, \<^verbatim>\<open>micro\<close> iff
  it is at least 14, and any other tier is never shown. An area with a price range (as
  every visible projected area has, by \<open>project_area_visible_has_prices\<close>) gets a marker
  exactly when \<^verbatim>\<open>shouldShow\<close> holds.
\<close>

theorem shouldShow_per_tier:
  assumes "visible pa"
  shows "(zoom_level pa = ''country'' \<longrightarrow> shouldShow pa z = (z < 7)) \<and>
         (zoom_level pa = ''state'' \<longrightarrow> shouldShow pa z = (7 \<le> z \<and> z < 10)) \<and>
         (zoom_level pa = ''city'' \<longrightarrow> shouldShow pa z = (z < 11)) \<and>
         (zoom_level pa = ''region'' \<or> zoom_level pa = ''area'' \<longrightarrow> shouldShow pa z = (z \<ge> 11)) \<and>
         (zoom_level pa = ''micro'' \<longrightarrow> shouldShow pa z = (z \<ge> 14)) \<and>
         (zoom_level pa \<notin> set [''country'', ''state'', ''city'', ''region'', ''area'', ''micro'']
            \<longrightarrow> \<not> shouldShow pa z) \<and>
         (priceRange pa \<noteq> None \<longrightarrow> (PriceBadge pa z h \<noteq> NoMarker) = shouldShow pa z)"
proof -
  have tiers: "(zoom_level pa = ''country'' \<longrightarrow> shouldShow pa z = (z < 7)) \<and>
         (zoom_level pa = ''state'' \<longrightarrow> shouldShow pa z = (7 \<le> z \<and> z < 10)) \<and>
         (zoom_level pa = ''city'' \<longrightarrow> shouldShow pa z = (z < 11)) \<and>
         (zoom_level pa = ''region'' \<or> zoom_level pa = ''area'' \<longrightarrow> shouldShow pa z = (z \<ge> 11)) \<and>
         (zoom_level pa = ''micro'' \<longrightarrow> shouldShow pa z = (z \<ge> 14)) \<and>
         (zoom_level pa \<notin> set [''country'', ''state'', ''city'', ''region'', ''area'', ''micro'']
            \<longrightarrow> \<not> shouldShow pa z)"
    using assms by (simp add: shouldShow_def Let_def)
  have shown: "priceRange pa \<noteq> None \<longrightarrow> (PriceBadge pa z h \<noteq> NoMarker) = shouldShow pa z"
    by (auto simp add: PriceBadge_def)
  from tiers shown show ?thesis by blast
qed

theorem shouldShow_per_tier_witness:
  "visible (project_area Buy ''2bhk'' None andheri) \<and>
   zoom_level (project_area Buy ''2bhk'' None andheri) = ''area'' \<and>
   shouldShow (project_area Buy ''2bhk'' None andheri) 11 \<and>
   \<not> shouldShow (project_area Buy ''2bhk'' None andheri) 10 \<and>
   PriceBadge (project_area Buy ''2bhk'' None andheri) 11 False \<noteq> NoMarker \<and>
   PriceBadge (project_area Buy ''2bhk'' None andheri) 10 False = NoMarker"
proof -
  have c: "area_prices andheri Buy ''2bhk'' =
     Some \<lparr>min_val = 8000000, max_val = 12000000, confidence = ''high''\<rparr>"
    by (simp add: area_prices_def andheri_def)
  have v: "visible (project_area Buy ''2bhk'' None andheri)"
    by (simp add: project_area_present [OF c] area_record.extend_def)
  have t: "zoom_level (project_area Buy ''2bhk'' None andheri) = ''area''"
    by (simp add: project_area_zoom_level andheri_def)
  have p: "priceRange (project_area Buy ''2bhk'' None andheri) \<noteq> None"
    using v by (rule project_area_visible_has_prices)
  show ?thesis
    using shouldShow_per_tier [OF v, of 11 False] shouldShow_per_tier [OF v, of 10 False] v t p
    by auto
qed

text \<open>
  Claim C9. The render mode: the tiers \<^verbatim>\<open>city\<close>, \<^verbatim>\<open>state\<close> and \<^verbatim>\<open>country\<close> are never a dot;
  every other tier is a dot exactly when the zoom is below 14 and the marker is not
  hovered. The decision does not read \<^verbatim>\<open>visible\<close>, and a marker that is rendered is the
  dot when \<^verbatim>\<open>showAsDot\<close> holds and the badge otherwise.
\<close>

theorem showAsDot_decision:
  "(zoom_level pa \<in> set [''city'', ''state'', ''country''] \<longrightarrow> \<not> showAsDot pa z h) \<and>
   (zoom_level pa \<notin> set [''city'', ''state'', ''country''] \<longrightarrow>
      showAsDot pa z h = (z < 14 \<and> \<not> h)) \<and>
   (\<forall>v. showAsDot (pa\<lparr>visible := v\<rparr>) z h = showAsDot pa z h) \<and>
   (PriceBadge pa z h \<noteq> NoMarker \<longrightarrow>
      PriceBadge pa z h = (if showAsDot pa z h then DotMarker else BadgeMarker))"
  by (simp add: showAsDot_def PriceBadge_def)

theorem showAsDot_decision_witness:
  "zoom_level (project_area Buy ''2bhk'' None andheri) \<notin> set [''city'', ''state'', ''country''] \<and>
   showAsDot (project_area Buy ''2bhk'' None andheri) 12 False \<and>
   \<not> showAsDot (project_area Buy ''2bhk'' None andheri) 12 True \<and>
   \<not> showAsDot (project_area Buy ''2bhk'' None andheri) 14 False \<and>
   zoom_level (project_area Buy ''2bhk'' None pune) \<in> set [''city'', ''state'', ''country''] \<and>
   \<not> showAsDot (project_area Buy ''2bhk'' None pune) 12 False \<and>
   PriceBadge (project_area Buy ''2bhk'' None andheri) 12 False = DotMarker \<and>
   PriceBadge (project_area Buy ''2bhk'' None andheri) 12 True = BadgeMarker"
proof -
  let ?pa = "project_area Buy ''2bhk'' None andheri"
  have c: "area_prices andheri Buy ''2bhk'' =
     Some \<lparr>min_val = 8000000, max_val = 12000000, confidence = ''high''\<rparr>"
    by (simp add: area_prices_def andheri_def)
  have t: "zoom_level ?pa = ''area''"
    by (simp add: project_area_zoom_level andheri_def)
  have v: "visible ?pa" "priceRange ?pa \<noteq> None"
    by (simp_all add: project_area_present [OF c] area_record.extend_def)
  have s: "PriceBadge ?pa 12 False \<noteq> NoMarker" "PriceBadge ?pa 12 True \<noteq> NoMarker"
    using t v by (simp_all add: PriceBadge_def shouldShow_def)
  have p: "zoom_level (project_area Buy ''2bhk'' None pune) = ''city''"
    by (simp add: project_area_zoom_level pune_def)
  show ?thesis
    using showAsDot_decision [of ?pa 12 False] showAsDot_decision [of ?pa 12 True]
          showAsDot_decision [of ?pa 14 False] showAsDot_decision [of "project_area Buy ''2bhk'' None pune" 12 False] t s p
    by simp
qed

subsection \<open>Filter state\<close>

text \<open>
  Claim C8. Both mode buttons leave \<^verbatim>\<open>budgetRange\<close> at \<^verbatim>\<open>null\<close>, whatever the state
  before, and no handler of the filters changes the mode without resetting
  \<^verbatim>\<open>budgetRange\<close>.
\<close>

theorem mode_change_resets_budget:
  "budgetRange (filter_step ClickBuy s) = None \<and>
   budgetRange (filter_step ClickRent s) = None \<and>
   mode (filter_step ClickBuy s) = Buy \<and>
   mode (filter_step ClickRent s) = Rent \<and>
   (mode (filter_step e s) \<noteq> mode s \<longrightarrow> budgetRange (filter_step e s) = None)"
  by (cases e) (simp_all add: handleBudgetClick_def)

theorem mode_change_resets_budget_witness:
  "mode (filter_step ClickRent (filter_step (ClickBudget (BUY_BUDGETS ! 1)) initial_filters))
     \<noteq> mode (filter_step (ClickBudget (BUY_BUDGETS ! 1)) initial_filters) \<and>
   budgetRange (filter_step (ClickBudget (BUY_BUDGETS ! 1)) initial_filters)
     = Some (BUY_BUDGETS ! 1) \<and>
   budgetRange
     (filter_step ClickRent (filter_step (ClickBudget (BUY_BUDGETS ! 1)) initial_filters)) = None"
  using mode_change_resets_budget
    [of "filter_step (ClickBudget (BUY_BUDGETS ! 1)) initial_filters" ClickRent]
  by (simp add: handleBudgetClick_def isBudgetActive_def initial_filters_def)

text \<open>
  Claim C10. Clicking a preset sets \<^verbatim>\<open>budgetRange\<close> to \<^verbatim>\<open>null\<close> when the current range
  has the preset's \<^verbatim>\<open>min\<close> and \<^verbatim>\<open>max\<close>, and to the preset otherwise; nothing else of
  the filter state changes.
\<close>

theorem handleBudgetClick_toggles:
  "(\<forall>r. budgetRange s = Some r \<and> min_val r = min_val b \<and> max_val r = max_val b \<longrightarrow>
      budgetRange (handleBudgetClick b s) = None) \<and>
   (\<not> (\<exists>r. budgetRange s = Some r \<and> min_val r = min_val b \<and> max_val r = max_val b) \<longrightarrow>
      budgetRange (handleBudgetClick b s) = Some b) \<and>
   handleBudgetClick b s = s\<lparr>budgetRange := budgetRange (handleBudgetClick b s)\<rparr>"
  by (cases "budgetRange s") (auto simp add: handleBudgetClick_def isBudgetActive_def)

theorem handleBudgetClick_toggles_witness:
  "budgetRange (handleBudgetClick (BUY_BUDGETS ! 1) initial_filters) = Some (BUY_BUDGETS ! 1) \<and>
   budgetRange (handleBudgetClick (BUY_BUDGETS ! 1)
      (handleBudgetClick (BUY_BUDGETS ! 1) initial_filters)) = None \<and>
   budgetRange (handleBudgetClick (BUY_BUDGETS ! 2)
      (handleBudgetClick (BUY_BUDGETS ! 1) initial_filters)) = Some (BUY_BUDGETS ! 2)"
proof -
  let ?s1 = "handleBudgetClick (BUY_BUDGETS ! 1) initial_filters"
  have b0: "budgetRange initial_filters = None"
    by (simp add: initial_filters_def)
  have d: "min_val (BUY_BUDGETS ! 1) \<noteq> min_val (BUY_BUDGETS ! 2)"
    by (simp add: BUY_BUDGETS_def)
  have s1: "budgetRange ?s1 = Some (BUY_BUDGETS ! 1)"
    using handleBudgetClick_toggles [of initial_filters "BUY_BUDGETS ! 1"] b0 by simp
  have s2: "budgetRange (handleBudgetClick (BUY_BUDGETS ! 1) ?s1) = None"
    using handleBudgetClick_toggles [of ?s1 "BUY_BUDGETS ! 1"] s1 by simp
  have s3: "budgetRange (handleBudgetClick (BUY_BUDGETS ! 2) ?s1) = Some (BUY_BUDGETS ! 2)"
    using handleBudgetClick_toggles [of ?s1 "BUY_BUDGETS ! 2"] s1 d by auto
  from s1 s2 s3 show ?thesis by simp
qed


subsection \<open>Dataset fetch and retry\<close>

text \<open>A first fetch that succeeds leads to the main view; one that fails, to the error view.\<close>

lemma first_fetch_success_main_view:
  "App_view (fetchPrices (Resolved (Response True (Inr d))) initial_load) = MainView"
  by (simp add: App_view_def fetchPrices_def fetchPrices_settle_def fetchPrices_start_def
        initial_load_def)

lemma fetch_failure_error_view:
  "App_view (fetchPrices (Resolved (Response False j)) s) =
     ErrorView ''Failed to fetch price data''"
  by (simp add: App_view_def fetchPrices_def fetchPrices_settle_def fetchPrices_start_def)

text \<open>
  Claim C3. The claim is that a retry that succeeds, after a failed fetch, leads from
  the error view to the main view. \<^verbatim>\<open>fetchPrices\<close> never clears \<^verbatim>\<open>error\<close>: from a state
  whose error message is set and not empty, the retry shows the loading view while the
  request is pending and stores the data it receives, but the view it ends in is the
  error view again, with the old message.
\<close>

theorem retry_success_stays_in_error_view:
  assumes "error s = Some msg" and "msg \<noteq> []"
  shows "App_view (fetchPrices_start s) = LoadingView \<and>
         priceData (fetchPrices (Resolved (Response True (Inr d))) s) = Some d \<and>
         App_view (fetchPrices (Resolved (Response True (Inr d))) s) = ErrorView msg"
  using assms
  by (simp add: App_view_def fetchPrices_def fetchPrices_settle_def fetchPrices_start_def)

theorem retry_success_stays_in_error_view_witness:
  "App_view (fetchPrices (Resolved (Response False (Inl []))) initial_load) =
     ErrorView ''Failed to fetch price data'' \<and>
   App_view (fetchPrices (Resolved (Response True (Inr sample_data)))
      (fetchPrices (Resolved (Response False (Inl []))) initial_load)) =
     ErrorView ''Failed to fetch price data''"
proof -
  let ?s = "fetchPrices (Resolved (Response False (Inl []))) initial_load"
  have e: "error ?s = Some ''Failed to fetch price data''"
    by (simp add: fetchPrices_def fetchPrices_settle_def fetchPrices_start_def)
  have n: "''Failed to fetch price data'' \<noteq> []"
    by simp
  show ?thesis
    using retry_success_stays_in_error_view [OF e n, of sample_data]
          fetch_failure_error_view [of "Inl []" initial_load]
    by simp
qed

subsection \<open>The update date\<close>

text \<open>
  Claim C4. The claim is that a malformed date string yields no displayed date, and no
  badge. Nothing in the \<^verbatim>\<open>try\<close> block throws for such a string: \<^verbatim>\<open>new Date\<close> returns an
  Invalid Date, every comparison of \<^verbatim>\<open>diffDays\<close> is false, and \<^verbatim>\<open>toLocaleDateString\<close>
  returns \<^verbatim>\<open>Invalid Date\<close>. So for every non-empty string the parser rejects, the
  formatter returns that text and \<^verbatim>\<open>DataInfo\<close> renders the badge
  \<^verbatim>\<open>Updated Invalid Date\<close>.
\<close>

theorem malformed_date_shows_badge:
  assumes "ds \<noteq> []" and "Date_parse env ds = None"
  shows "formatUpdateDate env (Some ds) = Some ''Invalid Date'' \<and>
         update_badge (DataInfo env ver (Some ds) vc tc) = Some ''Updated Invalid Date''"
  using assms
  by (simp add: formatUpdateDate_def diffDays_def toLocaleDateString_def DataInfo_def)

theorem malformed_date_shows_badge_witness:
  "''not-a-date'' \<noteq> [] \<and> Date_parse sample_env ''not-a-date'' = None \<and>
   formatUpdateDate sample_env (generated_at sample_data) = Some ''Invalid Date'' \<and>
   update_badge (DataInfo sample_env (version sample_data) (generated_at sample_data) 1 3) =
     Some ''Updated Invalid Date''"
proof -
  have n: "''not-a-date'' \<noteq> []"
    by simp
  have p: "Date_parse sample_env ''not-a-date'' = None"
    by (simp add: sample_env_def)
  show ?thesis
    using malformed_date_shows_badge [OF n p, of "version sample_data" 1 3] n p
    by (simp add: sample_data_def)
qed

text \<open>A date the parser accepts, five days before the clock's reading.\<close>

lemma formatUpdateDate_recent:
  "formatUpdateDate sample_env (Some ''2024-01-15T00:00:00Z'') = Some ''5 days ago''"
  by code_simp


subsection \<open>Search suggestions\<close>














lemma suggestions_mum:
  "map area_id (suggestions ul (js_str ''mum'') (areas sample_data)) = [1, 2]"
  by code_simp

lemma suggestions_unicode:
  "map area_id (suggestions latin1_lower [0x46, 0xC9] [andheri, cafe]) = [4]"
  "length (trim [0x61, 0xA0]) = 1"
  "suggestions ul [0x61, 0xA0] [andheri, cafe] = []"
  by code_simp+



subsection \<open>Double rounding\<close>

text \<open>The exponent \<open>ilog2 x\<close> brackets a positive \<open>x\<close> between two powers of two.\<close>

lemma bitlen_powi_bounds:
  fixes a :: int
  assumes "0 < a"
  shows "(2::rat) powi (bitlen a - 1) \<le> of_int a \<and> (of_int a :: rat) < 2 powi bitlen a"
proof -
  have b: "2 ^ nat (bitlen a - 1) \<le> a \<and> a < 2 ^ nat (bitlen a)"
    using bitlen_bounds [OF assms] .
  have pos: "1 \<le> bitlen a"
    using assms bitlen_eq_zero_iff [of a] bitlen_nonneg [of a] by linarith
  have lo: "(2::rat) powi (bitlen a - 1) = of_int (2 ^ nat (bitlen a - 1))"
    using pos by (simp add: power_int_def)
  have hi: "(2::rat) powi bitlen a = of_int (2 ^ nat (bitlen a))"
    using pos by (simp add: power_int_def)
  show ?thesis
    unfolding lo hi using b by (simp only: of_int_le_iff of_int_less_iff)
qed

lemma ilog2_bounds:
  assumes "0 < x"
  shows "2 powi ilog2 x \<le> x \<and> x < 2 powi (ilog2 x + 1)"
proof -
  obtain a b where ab: "quotient_of x = (a, b)"
    by (cases "quotient_of x")
  have bpos: "0 < b"
    using ab by (rule quotient_of_denom_pos)
  have xab: "x = of_int a / of_int b"
    using ab by (rule quotient_of_div)
  have apos: "0 < a"
    using assms bpos xab by (simp add: zero_less_divide_iff)
  define d where "d = bitlen a - bitlen b"
  have A: "(2::rat) powi (bitlen a - 1) \<le> of_int a" "(of_int a :: rat) < 2 powi bitlen a"
    using bitlen_powi_bounds [OF apos] by simp_all
  have B: "(2::rat) powi (bitlen b - 1) \<le> of_int b" "(of_int b :: rat) < 2 powi bitlen b"
    using bitlen_powi_bounds [OF bpos] by simp_all
  have b0: "(0::rat) < of_int b" using bpos by simp
  have a0: "(0::rat) < of_int a" using apos by simp
  have up: "x < 2 powi (d + 1)"
  proof -
    have "x < 2 powi bitlen a / of_int b"
      unfolding xab using A(2) b0 by (simp add: divide_strict_right_mono)
    also have "\<dots> \<le> 2 powi bitlen a / 2 powi (bitlen b - 1)"
      using B(1) by (simp add: frac_le)
    also have "\<dots> = 2 powi (d + 1)"
      by (simp add: d_def power_int_diff [symmetric] algebra_simps)
    finally show ?thesis .
  qed
  have low: "2 powi (d - 1) \<le> x"
  proof -
    have "(2::rat) powi (d - 1) = 2 powi (bitlen a - 1) / 2 powi bitlen b"
      by (simp add: d_def power_int_diff [symmetric] algebra_simps)
    also have "\<dots> \<le> of_int a / 2 powi bitlen b"
      using A(1) by (simp add: divide_right_mono)
    also have "\<dots> \<le> of_int a / of_int b"
      using B(2) a0 b0 by (simp add: frac_le)
    finally show ?thesis by (simp add: xab)
  qed
  have il: "ilog2 x = (if 2 powi d \<le> x then d else d - 1)"
    by (simp add: ilog2_def ab d_def Let_def)
  show ?thesis
  proof (cases "2 powi d \<le> x")
    case True
    with il up show ?thesis by simp
  next
    case False
    with il low show ?thesis by simp
  qed
qed

lemma ilog2_less:
  assumes "0 < x" and "x < 2 powi K"
  shows "ilog2 x < K"
proof (rule ccontr)
  assume "\<not> ilog2 x < K"
  then have "K \<le> ilog2 x" by simp
  then have "(2::rat) powi K \<le> 2 powi ilog2 x"
    by (simp add: power_int_increasing)
  also have "\<dots> \<le> x"
    using ilog2_bounds [OF assms(1)] by simp
  finally show False using assms(2) by simp
qed

text \<open>Rounding to an integer moves a value by at most one half and fixes the integers.\<close>

lemma round_ties_even_error: "\<bar>of_int (round_ties_even y) - y\<bar> \<le> 1 / 2"
proof -
  have "of_int \<lfloor>y\<rfloor> \<le> y" "y < of_int \<lfloor>y\<rfloor> + 1"
    by linarith+
  then show ?thesis
    by (auto simp add: round_ties_even_def Let_def abs_le_iff)
qed

lemma round_ties_even_of_int: "round_ties_even (of_int n) = n"
  by (simp add: round_ties_even_def)


text \<open>
  The rounding error of \<open>fl\<close> below \<open>2^K\<close> is at most half a unit in the last place,
  \<open>2^(K - 54)\<close>; half-integers below \<open>2^52\<close> are doubles.
\<close>

lemma fl_near:
  assumes "0 \<le> x" and "x < 2 powi K" and "- 1021 \<le> K"
  shows "\<bar>fl x - x\<bar> \<le> 2 powi (K - 54)"
proof (cases "x = 0")
  case True
  then show ?thesis by (simp add: fl_def)
next
  case False
  with assms(1) have pos: "0 < x" by simp
  define e where "e = max (ilog2 x - 52) (- 1074)"
  define m where "m = round_ties_even (x / 2 powi e)"
  have e_le: "e \<le> K - 53"
    using ilog2_less [OF pos assms(2)] assms(3) by (simp add: e_def)
  have p0: "(0::rat) < 2 powi e" by simp
  have flx: "fl x = of_int m * 2 powi e"
    using pos False by (simp add: fl_def e_def m_def Let_def)
  have "fl x - x = (of_int m - x / 2 powi e) * 2 powi e"
    using p0 by (simp add: flx algebra_simps)
  then have "\<bar>fl x - x\<bar> = \<bar>of_int m - x / 2 powi e\<bar> * 2 powi e"
    by (simp add: abs_mult)
  also have "\<dots> \<le> (1 / 2) * 2 powi e"
    using round_ties_even_error [of "x / 2 powi e"] p0
    by (simp add: m_def mult_right_mono)
  also have "\<dots> = 2 powi (e - 1)"
    by (simp add: power_int_diff)
  also have "\<dots> \<le> 2 powi (K - 54)"
    using e_le by (simp add: power_int_increasing)
  finally show ?thesis .
qed

lemma fl_half_integer:
  assumes "0 \<le> x" and "x < 2 powi 52" and "x = of_int n / 2"
  shows "fl x = x"
proof (cases "x = 0")
  case True
  then show ?thesis by (simp add: fl_def)
next
  case False
  with assms(1) have pos: "0 < x" by simp
  define e where "e = max (ilog2 x - 52) (- 1074)"
  have e_le: "e \<le> - 1"
    using ilog2_less [OF pos assms(2)] by (simp add: e_def)
  define j where "j = nat (- e - 1)"
  have ej: "e = - 1 - int j"
    using e_le by (simp add: j_def)
  have "(2::rat) powi (e + (1 + int j)) = 2 powi e * 2 powi (1 + int j)"
    by (rule power_int_add) simp
  then have inv: "(2::rat) powi e * 2 powi (1 + int j) = 1"
    by (simp add: ej)
  have "x / 2 powi e = x * 2 powi (1 + int j)"
    using inv by (simp add: divide_eq_eq mult.assoc mult.commute)
  also have "\<dots> = of_int n / 2 * 2 powi (1 + int j)"
    by (simp add: assms(3))
  also have "\<dots> = of_int n * 2 ^ j"
    by (simp add: power_int_add)
  also have "\<dots> = of_int (n * 2 ^ j)"
    by simp
  finally have q: "x / 2 powi e = of_int (n * 2 ^ j)" .
  have "fl x = of_int (round_ties_even (x / 2 powi e)) * 2 powi e"
    using pos False by (simp add: fl_def e_def Let_def)
  also have "\<dots> = (x / 2 powi e) * 2 powi e"
    by (simp only: q round_ties_even_of_int)
  also have "\<dots> = x"
    by simp
  finally show ?thesis .
qed

text \<open>
  Rounding a perturbed value: when \<open>y\<close> is a multiple of \<open>1 / D\<close> for an even \<open>D\<close> and
  \<open>y'\<close> is closer to \<open>y\<close> than \<open>1 / D\<close>, rounding \<open>y'\<close> half up gives an integer nearest
  to \<open>y\<close>; it gives \<open>y\<close> rounded half up when, in addition, \<open>y'\<close> is \<open>y\<close> on a tie.
\<close>

lemma floor_half_near:
  fixes y y' :: rat and a D :: int
  assumes D: "0 < D" "even D" and y: "y = of_int a / of_int D"
    and near: "\<bar>y' - y\<bar> < 1 / of_int D"
  shows "\<bar>of_int \<lfloor>y' + 1 / 2\<rfloor> - y\<bar> \<le> 1 / 2"
proof -
  define n where "n = \<lfloor>y' + 1 / 2\<rfloor>"
  obtain h where h: "D = 2 * h" using D(2) by (elim evenE)
  have hpos: "0 < h" using D(1) h by simp
  have Dr: "(0::rat) < of_int D" using D(1) by simp
  have n1: "of_int n \<le> y' + 1 / 2" and n2: "y' + 1 / 2 < of_int n + 1"
    unfolding n_def by linarith+
  have ay: "of_int a = y * of_int D"
    using Dr by (simp add: y)
  have hr: "(of_int h :: rat) = of_int D / 2"
    by (simp add: h)
  have "of_int n - 1 / 2 - 1 / of_int D < y"
    using n1 near by linarith
  then have "(of_int n - 1 / 2 - 1 / of_int D) * of_int D < y * of_int D"
    using Dr by (simp only: mult_strict_right_mono)
  then have "(of_int (n * D - h - 1) :: rat) < of_int a"
    using Dr by (simp add: ay hr algebra_simps)
  then have lo: "n * D - h \<le> a"
    by (simp only: of_int_less_iff)
  have "y < of_int n + 1 / 2 + 1 / of_int D"
    using n2 near by linarith
  then have "y * of_int D < (of_int n + 1 / 2 + 1 / of_int D) * of_int D"
    using Dr by (simp only: mult_strict_right_mono)
  then have "(of_int a :: rat) < of_int (n * D + h + 1)"
    using Dr by (simp add: ay hr algebra_simps)
  then have hi: "a \<le> n * D + h"
    by (simp only: of_int_less_iff)
  have "(of_int (n * D - h) :: rat) \<le> of_int a" "(of_int a :: rat) \<le> of_int (n * D + h)"
    using lo hi by (simp_all only: of_int_le_iff)
  then have "(of_int n - 1 / 2) * of_int D \<le> y * of_int D"
        "y * of_int D \<le> (of_int n + 1 / 2) * of_int D"
    by (simp_all add: ay [symmetric] hr algebra_simps)
  then have "of_int n - 1 / 2 \<le> y" "y \<le> of_int n + 1 / 2"
    using Dr by (simp_all only: mult_le_cancel_right_pos)
  then show ?thesis
    unfolding n_def [symmetric] by linarith
qed


lemma floor_half_exact:
  fixes y y' :: rat and a D :: int
  assumes D: "0 < D" "even D" and y: "y = of_int a / of_int D"
    and near: "\<bar>y' - y\<bar> < 1 / of_int D"
    and tie: "(\<exists>k::int. y = of_int k + 1 / 2) \<Longrightarrow> y' = y"
  shows "\<lfloor>y' + 1 / 2\<rfloor> = \<lfloor>y + 1 / 2\<rfloor>"
proof (cases "\<exists>k::int. y = of_int k + 1 / 2")
  case True
  then show ?thesis using tie by simp
next
  case False
  define n where "n = \<lfloor>y + 1 / 2\<rfloor>"
  obtain h where h: "D = 2 * h" using D(2) by (elim evenE)
  have Dr: "(0::rat) < of_int D" using D(1) by simp
  have ay: "of_int a = y * of_int D"
    using Dr by (simp add: y)
  have hr: "(of_int h :: rat) = of_int D / 2"
    by (simp add: h)
  have n1: "of_int n \<le> y + 1 / 2" and n2: "y + 1 / 2 < of_int n + 1"
    unfolding n_def by linarith+
  have ne: "of_int n \<noteq> y + 1 / 2"
  proof
    assume "of_int n = y + 1 / 2"
    then have "y = of_int (n - 1) + 1 / 2" by simp
    with False show False by blast
  qed
  with n1 have n1': "of_int n < y + 1 / 2" by simp
  then have "of_int n * of_int D < (y + 1 / 2) * of_int D"
    using Dr by (simp only: mult_strict_right_mono)
  then have "(of_int (n * D) :: rat) < of_int (a + h)"
    by (simp add: ay hr algebra_simps)
  then have "n * D + 1 \<le> a + h"
    by (simp only: of_int_less_iff)
  then have "(of_int (n * D + 1) :: rat) \<le> of_int (a + h)"
    by (simp only: of_int_le_iff)
  then have "(of_int n + 1 / of_int D) * of_int D \<le> (y + 1 / 2) * of_int D"
    using Dr by (simp add: ay hr algebra_simps)
  then have lo: "of_int n + 1 / of_int D \<le> y + 1 / 2"
    using Dr by (simp only: mult_le_cancel_right_pos)
  have "(y + 1 / 2) * of_int D < (of_int n + 1) * of_int D"
    using n2 Dr by (simp only: mult_strict_right_mono)
  then have "(of_int (a + h) :: rat) < of_int ((n + 1) * D)"
    by (simp add: ay hr algebra_simps)
  then have "a + h \<le> (n + 1) * D - 1"
    by (simp only: of_int_less_iff)
  then have "(of_int (a + h) :: rat) \<le> of_int ((n + 1) * D - 1)"
    by (simp only: of_int_le_iff)
  then have "(y + 1 / 2) * of_int D \<le> (of_int n + 1 - 1 / of_int D) * of_int D"
    using Dr by (simp add: ay hr algebra_simps)
  then have hi: "y + 1 / 2 \<le> of_int n + 1 - 1 / of_int D"
    using Dr by (simp only: mult_le_cancel_right_pos)
  have "of_int n \<le> y' + 1 / 2" "y' + 1 / 2 < of_int n + 1"
    using lo hi near by linarith+
  then have "\<lfloor>y' + 1 / 2\<rfloor> = n"
    by (simp add: floor_unique)
  then show ?thesis by (simp add: n_def)
qed


lemma round_ties_even_nonneg: "0 \<le> y \<Longrightarrow> 0 \<le> round_ties_even y"
  by (simp add: round_ties_even_def Let_def)

lemma fl_nonneg:
  assumes "0 \<le> x"
  shows "0 \<le> fl x"
proof (cases "x = 0")
  case True
  then show ?thesis by (simp add: fl_def)
next
  case False
  with assms have pos: "0 < x" by simp
  define e where "e = max (ilog2 x - 52) (- 1074)"
  have "0 \<le> x / 2 powi e" using pos by simp
  then have "0 \<le> round_ties_even (x / 2 powi e)"
    by (rule round_ties_even_nonneg)
  then have "(0::rat) \<le> of_int (round_ties_even (x / 2 powi e)) * 2 powi e"
    by simp
  then show ?thesis
    using pos False by (simp add: fl_def e_def Let_def)
qed

subsection \<open>Digits and \<^verbatim>\<open>toFixed\<close>\<close>

declare show_nat.simps [simp del]

lemma show_nat_small: "n < 10 \<Longrightarrow> show_nat n = [digit_char n]"
  by (subst show_nat.simps) simp

lemma show_nat_large: "10 \<le> n \<Longrightarrow> show_nat n = show_nat (n div 10) @ [digit_char (n mod 10)]"
  by (subst show_nat.simps) simp

lemma show_nat_nonempty: "show_nat n \<noteq> []"
  by (cases "n < 10") (simp_all add: show_nat_small show_nat_large not_less)

lemma length_show_nat_mod: "length (show_nat (n mod 10)) = 1"
  by (simp add: show_nat_small)

lemma show_nat_tenths:
  "(if length (show_nat n) \<le> 1 then replicate (1 + 1 - length (show_nat n)) (CHR ''0'') else [])
     @ show_nat n =
   show_nat (n div 10) @ show_nat (n mod 10)"
proof (cases "n < 10")
  case True
  then show ?thesis
    by (simp add: show_nat_small digit_char_def)
next
  case False
  then have big: "10 \<le> n" by simp
  have "2 \<le> length (show_nat n)"
    using show_nat_nonempty [of "n div 10"]
    by (simp add: show_nat_large [OF big] Suc_le_eq)
  then show ?thesis
    by (simp add: show_nat_large [OF big] show_nat_small [of "n mod 10"] show_nat_nonempty)
qed

lemma toFixed_0: "0 \<le> x \<Longrightarrow> toFixed 0 x = show_nat (nat \<lfloor>x + 1 / 2\<rfloor>)"
  by (simp add: toFixed_def)

lemma toFixed_1:
  assumes "0 \<le> x"
  shows "toFixed 1 x =
           show_nat (nat \<lfloor>x * 10 + 1 / 2\<rfloor> div 10) @ ''.'' @
           show_nat (nat \<lfloor>x * 10 + 1 / 2\<rfloor> mod 10)"
proof -
  define n where "n = nat \<lfloor>x * 10 + 1 / 2\<rfloor>"
  define m' where "m' =
    (if length (show_nat n) \<le> 1 then replicate (1 + 1 - length (show_nat n)) (CHR ''0'') else [])
      @ show_nat n"
  have m': "m' = show_nat (n div 10) @ show_nat (n mod 10)"
    unfolding m'_def by (rule show_nat_tenths)
  have len: "length m' - 1 = length (show_nat (n div 10))"
    by (simp add: m' length_show_nat_mod)
  have "toFixed 1 x = take (length m' - 1) m' @ ''.'' @ drop (length m' - 1) m'"
    using assms by (simp add: toFixed_def Let_def n_def m'_def)
  also have "\<dots> = show_nat (n div 10) @ ''.'' @ show_nat (n mod 10)"
    unfolding len by (simp add: m')
  finally show ?thesis by (simp add: n_def)
qed


subsection \<open>Price formatting\<close>

text \<open>
  A quotient below 128 by an even divisor up to 100000, rounded half up after the
  division, is the exact quotient rounded half up.
\<close>

lemma js_div_round_exact:
  fixes p D :: int
  assumes "0 \<le> p" and D: "0 < D" "even D" "D \<le> 100000" and small: "p < 128 * D"
  shows "\<lfloor>js_div (of_int p) (of_int D) + 1 / 2\<rfloor> = (p + D div 2) div D"
proof -
  define q :: rat where "q = of_int p / of_int D"
  have Dr: "(0::rat) < of_int D" using D(1) by simp
  have q0: "0 \<le> q"
    using assms(1) Dr by (simp add: q_def)
  have "(of_int p :: rat) < of_int (128 * D)"
    using small by (simp only: of_int_less_iff)
  then have q128: "q < 128"
    using Dr by (simp add: q_def divide_less_eq)
  then have q7: "q < 2 powi 7" by simp
  have q52: "q < 2 powi 52"
    using q128 by simp
  have "\<bar>fl q - q\<bar> \<le> 2 powi (7 - 54)"
    using q0 q7 by (rule fl_near) simp
  also have "\<dots> < 1 / 100000"
    by simp
  also have "\<dots> \<le> 1 / of_int D"
  proof -
    have "(of_int D :: rat) \<le> of_int 100000"
      using D(3) by (simp only: of_int_le_iff)
    then show ?thesis using Dr by (simp add: frac_le)
  qed
  finally have near: "\<bar>fl q - q\<bar> < 1 / of_int D" .
  have tie: "fl q = q" if "\<exists>k::int. q = of_int k + 1 / 2"
  proof -
    from that obtain k :: int where "q = of_int k + 1 / 2" ..
    then have "q = of_int (2 * k + 1) / 2" by simp
    with q0 q52 show ?thesis by (rule fl_half_integer)
  qed
  have "\<lfloor>fl q + 1 / 2\<rfloor> = \<lfloor>q + 1 / 2\<rfloor>"
    using D(1,2) q_def near tie by (rule floor_half_exact)
  also have "q + 1 / 2 = of_int (2 * p + D) / of_int (2 * D)"
    using Dr by (simp add: q_def field_simps)
  also have "\<lfloor>of_int (2 * p + D) / (of_int (2 * D) :: rat)\<rfloor> = (2 * p + D) div (2 * D)"
    by (rule floor_divide_of_int_eq)
  also have "\<dots> = (p + D div 2) div D"
  proof -
    obtain h where h: "D = 2 * h" using D(2) by (elim evenE)
    have "(2 * p + D) div (2 * D) = (2 * (p + h)) div (2 * D)"
      by (simp add: h algebra_simps)
    also have "\<dots> = (p + h) div D"
      by (rule div_mult_mult1) simp
    finally show ?thesis by (simp add: h)
  qed
  finally show ?thesis by (simp add: js_div_def q_def)
qed

text \<open>
  Ten times the rounded quotient, rounded half up, is an integer nearest to ten times
  the exact quotient, provided the rounding error of the division stays below the
  spacing \<open>1 / D'\<close> of the exact values.
\<close>

lemma js_div_tenths_near:
  fixes p D' :: int
  assumes "0 \<le> p" and D: "0 < D'" "even D'"
    and K: "of_int p / of_int (10 * D') < (2::rat) powi K" "- 1021 \<le> K"
           "10 * (2::rat) powi (K - 54) < 1 / of_int D'"
  shows "\<bar>of_int \<lfloor>js_div (of_int p) (of_int (10 * D')) * 10 + 1 / 2\<rfloor>
           - (of_int p / of_int D' :: rat)\<bar> \<le> 1 / 2"
proof -
  define q :: rat where "q = of_int p / of_int (10 * D')"
  have Dr: "(0::rat) < of_int D'" using D(1) by simp
  have q0: "0 \<le> q"
    using assms(1) Dr by (simp add: q_def)
  have e: "\<bar>fl q - q\<bar> \<le> 2 powi (K - 54)"
    using q0 K(1) K(2) unfolding q_def [symmetric] by (rule fl_near)
  have q10: "q * 10 = of_int p / of_int D'"
    by (simp add: q_def)
  have eq: "fl q * 10 - q * 10 = (fl q - q) * 10"
    by (simp add: algebra_simps)
  have "\<bar>fl q * 10 - q * 10\<bar> = 10 * \<bar>fl q - q\<bar>"
    unfolding eq abs_mult by simp
  also have "\<dots> \<le> 10 * 2 powi (K - 54)"
    using e by simp
  also have "\<dots> < 1 / of_int D'"
    by (rule K(3))
  finally have near: "\<bar>fl q * 10 - of_int p / of_int D'\<bar> < 1 / of_int D'"
    by (simp only: q10)
  have "\<bar>of_int \<lfloor>fl q * 10 + 1 / 2\<rfloor> - (of_int p / of_int D' :: rat)\<bar> \<le> 1 / 2"
    using D refl near by (rule floor_half_near)
  then show ?thesis by (simp add: js_div_def q_def)
qed


text \<open>The four branches of \<^verbatim>\<open>formatPrice\<close>, and the examples of the specification.\<close>

lemma formatPrice_rent_thousands:
  fixes p :: int
  assumes "0 \<le> p" and "p < 100000"
  shows "formatPrice (of_int p) True = rupee @ show_nat (nat ((p + 500) div 1000)) @ ''K''"
proof -
  have "\<lfloor>js_div (of_int p) (of_int 1000) + 1 / 2\<rfloor> = (p + 1000 div 2) div 1000"
    using assms by (intro js_div_round_exact) simp_all
  then have r: "Math_round (js_div (of_int p) 1000) = (p + 500) div 1000"
    by (simp add: Math_round_def)
  have "0 \<le> (p + 500) div 1000"
    using assms(1) by (simp add: pos_imp_zdiv_nonneg_iff)
  then have "show_int ((p + 500) div 1000) = show_nat (nat ((p + 500) div 1000))"
    by (simp add: show_int_def)
  moreover have "\<not> (100000 :: rat) \<le> of_int p"
    using assms(2) by (simp add: not_le)
  ultimately show ?thesis
    by (simp add: formatPrice_def r)
qed

lemma formatPrice_buy_lakhs:
  fixes p :: int
  assumes "0 \<le> p" and "p < 10000000"
  shows "formatPrice (of_int p) False = rupee @ show_nat (nat ((p + 50000) div 100000)) @ ''L''"
proof -
  have "\<lfloor>js_div (of_int p) (of_int 100000) + 1 / 2\<rfloor> = (p + 100000 div 2) div 100000"
    using assms by (intro js_div_round_exact) simp_all
  then have r: "\<lfloor>js_div (of_int p) 100000 + 1 / 2\<rfloor> = (p + 50000) div 100000"
    by simp
  have nn: "0 \<le> js_div (of_int p) 100000"
    using assms(1) by (simp add: js_div_def fl_nonneg)
  have "\<not> (10000000 :: rat) \<le> of_int p"
    using assms(2) by (simp add: not_le)
  then show ?thesis
    by (simp add: formatPrice_def toFixed_0 [OF nn] r)
qed

lemma formatPrice_tenths:
  fixes p D' :: int
  assumes "0 \<le> p" and D: "0 < D'" "even D'"
    and K: "of_int p / of_int (10 * D') < (2::rat) powi K" "- 1021 \<le> K"
           "10 * (2::rat) powi (K - 54) < 1 / of_int D'"
  shows "\<exists>n::nat.
           toFixed 1 (js_div (of_int p) (of_int (10 * D'))) =
             show_nat (n div 10) @ ''.'' @ show_nat (n mod 10) \<and>
           \<bar>of_nat n / 10 - (of_int p / of_int (10 * D') :: rat)\<bar> \<le> 1 / 20"
proof -
  define x where "x = js_div (of_int p) (of_int (10 * D'))"
  define n where "n = nat \<lfloor>x * 10 + 1 / 2\<rfloor>"
  have Dr: "(0::rat) < of_int D'" using D(1) by simp
  have nn: "0 \<le> x"
    using assms(1) Dr by (simp add: x_def js_div_def fl_nonneg)
  then have "0 \<le> \<lfloor>x * 10 + 1 / 2\<rfloor>" by simp
  then have nf: "(of_nat n :: rat) = of_int \<lfloor>x * 10 + 1 / 2\<rfloor>"
    by (simp add: n_def)
  have "\<bar>of_int \<lfloor>x * 10 + 1 / 2\<rfloor> - (of_int p / of_int D' :: rat)\<bar> \<le> 1 / 2"
    unfolding x_def using assms by (rule js_div_tenths_near)
  then have half: "\<bar>of_nat n - (of_int p / of_int D' :: rat)\<bar> \<le> 1 / 2"
    by (simp only: nf)
  have eq: "of_nat n / 10 - (of_int p / of_int (10 * D') :: rat) =
        (of_nat n - of_int p / of_int D') / 10"
    by (simp add: field_simps)
  have "\<bar>(of_nat n - of_int p / of_int D') / (10::rat)\<bar> =
        \<bar>of_nat n - of_int p / of_int D'\<bar> / 10"
    by simp
  also have "\<dots> \<le> (1 / 2) / 10"
    using half by (simp only: divide_right_mono zero_le_numeral)
  finally have "\<bar>of_nat n / 10 - (of_int p / of_int (10 * D') :: rat)\<bar> \<le> 1 / 20"
    unfolding eq by simp
  moreover have "toFixed 1 x = show_nat (n div 10) @ ''.'' @ show_nat (n mod 10)"
    unfolding n_def using nn by (rule toFixed_1)
  ultimately show ?thesis
    unfolding x_def by blast
qed


lemma formatPrice_rent_lakhs:
  fixes p :: int
  assumes "100000 \<le> p" and "p < 2 ^ 53"
  shows "\<exists>n::nat.
           formatPrice (of_int p) True =
             rupee @ show_nat (n div 10) @ ''.'' @ show_nat (n mod 10) @ ''L'' \<and>
           \<bar>of_nat n / 10 - (of_int p / 100000 :: rat)\<bar> \<le> 1 / 20"
proof -
  have p0: "0 \<le> p" using assms(1) by simp
  have "(of_int p :: rat) < of_int (2 ^ 53)"
    using assms(2) by (simp only: of_int_less_iff)
  then have k1: "of_int p / of_int (10 * 10000) < (2::rat) powi 37"
    by simp
  have k3: "10 * (2::rat) powi (37 - 54) < 1 / of_int 10000"
    by simp
  have "\<exists>n::nat.
           toFixed 1 (js_div (of_int p) (of_int (10 * 10000))) =
             show_nat (n div 10) @ ''.'' @ show_nat (n mod 10) \<and>
           \<bar>of_nat n / 10 - (of_int p / of_int (10 * 10000) :: rat)\<bar> \<le> 1 / 20"
    using p0 _ _ k1 _ k3 by (rule formatPrice_tenths) simp_all
  moreover have "(100000 :: rat) \<le> of_int p"
    using assms(1) by simp
  ultimately show ?thesis
    by (simp add: formatPrice_def)
qed

lemma formatPrice_buy_crores:
  fixes p :: int
  assumes "10000000 \<le> p" and "p < 2 ^ 53"
  shows "\<exists>n::nat.
           formatPrice (of_int p) False =
             rupee @ show_nat (n div 10) @ ''.'' @ show_nat (n mod 10) @ ''Cr'' \<and>
           \<bar>of_nat n / 10 - (of_int p / 10000000 :: rat)\<bar> \<le> 1 / 20"
proof -
  have p0: "0 \<le> p" using assms(1) by simp
  have "(of_int p :: rat) < of_int (2 ^ 53)"
    using assms(2) by (simp only: of_int_less_iff)
  then have k1: "of_int p / of_int (10 * 1000000) < (2::rat) powi 30"
    by simp
  have k3: "10 * (2::rat) powi (30 - 54) < 1 / of_int 1000000"
    by simp
  have "\<exists>n::nat.
           toFixed 1 (js_div (of_int p) (of_int (10 * 1000000))) =
             show_nat (n div 10) @ ''.'' @ show_nat (n mod 10) \<and>
           \<bar>of_nat n / 10 - (of_int p / of_int (10 * 1000000) :: rat)\<bar> \<le> 1 / 20"
    using p0 _ _ k1 _ k3 by (rule formatPrice_tenths) simp_all
  moreover have "(10000000 :: rat) \<le> of_int p"
    using assms(1) by simp
  ultimately show ?thesis
    by (simp add: formatPrice_def)
qed

lemma formatPrice_examples:
  "formatPrice 5000000 False = rupee @ ''50L''"
  "formatPrice 125000000 False = rupee @ ''12.5Cr''"
  "formatPrice 25000 True = rupee @ ''25K''"
  "formatPrice 150000 True = rupee @ ''1.5L''"
  by code_simp+

text \<open>
  Claim C6. For an integer amount \<open>p\<close> with \<open>0 \<le> p < 2^53\<close> (each is a double):
  \<^item> rent, \<open>p \<ge> 100000\<close>: the text is the rupee sign, a numeral with one decimal and
    \<^verbatim>\<open>L\<close>, and the numeral is a nearest one-decimal value to \<open>p / 100000\<close>;
  \<^item> rent, \<open>p < 100000\<close>: the rupee sign, \<open>p / 1000\<close> rounded half up, and \<^verbatim>\<open>K\<close>;
  \<^item> purchase, \<open>p \<ge> 10000000\<close>: the rupee sign, a numeral with one decimal and \<^verbatim>\<open>Cr\<close>,
    the numeral a nearest one-decimal value to \<open>p / 10000000\<close>;
  \<^item> purchase, \<open>p < 10000000\<close>: the rupee sign, \<open>p / 100000\<close> rounded half up with no
    decimals, and \<^verbatim>\<open>L\<close>.
  The four examples of the specification evaluate as stated.
\<close>

theorem formatPrice_contract:
  fixes p :: int
  assumes "0 \<le> p" and "p < 2 ^ 53"
  shows
    "(100000 \<le> p \<longrightarrow>
        (\<exists>n::nat. formatPrice (of_int p) True =
                     rupee @ show_nat (n div 10) @ ''.'' @ show_nat (n mod 10) @ ''L'' \<and>
                   \<bar>of_nat n / 10 - (of_int p / 100000 :: rat)\<bar> \<le> 1 / 20)) \<and>
     (p < 100000 \<longrightarrow>
        formatPrice (of_int p) True = rupee @ show_nat (nat ((p + 500) div 1000)) @ ''K'') \<and>
     (10000000 \<le> p \<longrightarrow>
        (\<exists>n::nat. formatPrice (of_int p) False =
                     rupee @ show_nat (n div 10) @ ''.'' @ show_nat (n mod 10) @ ''Cr'' \<and>
                   \<bar>of_nat n / 10 - (of_int p / 10000000 :: rat)\<bar> \<le> 1 / 20)) \<and>
     (p < 10000000 \<longrightarrow>
        formatPrice (of_int p) False = rupee @ show_nat (nat ((p + 50000) div 100000)) @ ''L'') \<and>
     formatPrice 5000000 False = rupee @ ''50L'' \<and>
     formatPrice 125000000 False = rupee @ ''12.5Cr'' \<and>
     formatPrice 25000 True = rupee @ ''25K'' \<and>
     formatPrice 150000 True = rupee @ ''1.5L''"
  using assms formatPrice_rent_lakhs [of p] formatPrice_rent_thousands [of p]
        formatPrice_buy_crores [of p] formatPrice_buy_lakhs [of p] formatPrice_examples
  by blast

text \<open>Sample amounts, among them ties of the rounding.\<close>

lemma show_nat_samples:
  "show_nat (nat ((25499 + 500) div 1000)) = ''25''"
  "show_nat (nat ((25500 + 500) div 1000)) = ''26''"
  "show_nat (nat ((9950000 + 50000) div 100000)) = ''100''"
  by code_simp+

theorem formatPrice_contract_witness:
  "(0::int) \<le> 25499 \<and> (25499::int) < 2 ^ 53 \<and> (25499::int) < 100000 \<and>
   formatPrice 25499 True = rupee @ ''25K'' \<and>
   formatPrice 25500 True = rupee @ ''26K'' \<and>
   formatPrice 9950000 False = rupee @ ''100L'' \<and>
   (\<exists>n::nat. formatPrice 115000 True =
                rupee @ show_nat (n div 10) @ ''.'' @ show_nat (n mod 10) @ ''L'' \<and>
              \<bar>of_nat n / 10 - (115000 / 100000 :: rat)\<bar> \<le> 1 / 20)"
  using formatPrice_contract [of 25499] formatPrice_contract [of 25500]
        formatPrice_contract [of 9950000] formatPrice_contract [of 115000] show_nat_samples
  by simp

text \<open>
  On a one-decimal tie the digit follows the double nearest to the quotient:
  \<open>1.15\<close> is not a double and the nearest one is below it; \<open>1.25\<close> is a double.
\<close>

lemma formatPrice_tie_samples:
  "formatPrice 115000 True = rupee @ ''1.1L''"
  "formatPrice 125000 True = rupee @ ''1.3L''"
  by code_simp+

end
